theory Spec2Isabelle
  imports Complex_Main
begin

section \<open>Errors and numbers\<close>

text \<open>
  The exceptions the module raises, as values: a result is \<open>error + 'a\<close>, \<open>Inl\<close> the
  exception.
\<close>

datatype error =
    ValueError
  | NotImplementedError
  | AttributeError
  | IndexError
  | TypeError
  | AssertionError
  | ZeroDivisionError

text \<open>
  A scalar of the array library. Rounding and the sign of zero are abstracted: the finite
  values are exact reals, and the three values an arithmetic operation of the library
  produces instead of raising (both infinities and not-a-number) are kept, so that a
  division by zero is a branch of the model and not an unspecified real.
\<close>

datatype fval = Fin real | PInf | NInf | NaN

definition inf_of_sign :: "real \<Rightarrow> fval" where
  "inf_of_sign s = (if 0 < s then PInf else if s < 0 then NInf else NaN)"

fun fsgn :: "fval \<Rightarrow> real" where
  "fsgn (Fin a) = sgn a"
| "fsgn PInf = 1"
| "fsgn NInf = - 1"
| "fsgn NaN = 0"

fun fneg :: "fval \<Rightarrow> fval" where
  "fneg (Fin a) = Fin (- a)"
| "fneg PInf = NInf"
| "fneg NInf = PInf"
| "fneg NaN = NaN"

fun fadd :: "fval \<Rightarrow> fval \<Rightarrow> fval" where
  "fadd (Fin a) (Fin b) = Fin (a + b)"
| "fadd NaN y = NaN"
| "fadd x NaN = NaN"
| "fadd (Fin a) y = y"
| "fadd x (Fin b) = x"
| "fadd x y = (if x = y then x else NaN)"

definition fsub :: "fval \<Rightarrow> fval \<Rightarrow> fval" where
  "fsub x y = fadd x (fneg y)"

fun fmul :: "fval \<Rightarrow> fval \<Rightarrow> fval" where
  "fmul (Fin a) (Fin b) = Fin (a * b)"
| "fmul NaN y = NaN"
| "fmul x NaN = NaN"
| "fmul x y = inf_of_sign (fsgn x * fsgn y)"

fun fdiv :: "fval \<Rightarrow> fval \<Rightarrow> fval" where
  "fdiv (Fin a) (Fin b) = (if b = 0 then inf_of_sign a else Fin (a / b))"
| "fdiv NaN y = NaN"
| "fdiv x NaN = NaN"
| "fdiv (Fin a) y = Fin 0"
| "fdiv x (Fin b) = inf_of_sign (fsgn x * (if b < 0 then - 1 else 1))"
| "fdiv x y = NaN"

fun fsqrt :: "fval \<Rightarrow> fval" where
  "fsqrt (Fin a) = (if a < 0 then NaN else Fin (sqrt a))"
| "fsqrt PInf = PInf"
| "fsqrt NInf = NaN"
| "fsqrt NaN = NaN"

text \<open>A power with a Python \<open>int\<close> exponent that is not negative.\<close>

fun fpow :: "fval \<Rightarrow> nat \<Rightarrow> fval" where
  "fpow x 0 = Fin 1"
| "fpow (Fin a) n = Fin (a ^ n)"
| "fpow PInf n = PInf"
| "fpow NInf n = (if even n then PInf else NInf)"
| "fpow NaN n = NaN"

section \<open>Damping utilities\<close>

subsection \<open>Tensors\<close>

text \<open>
  A tensor of known static shape: the shape and the entries in row-major order.
\<close>

record tensor =
  shape :: "nat list"
  vals :: "real list"

definition wf_tensor :: "tensor \<Rightarrow> bool" where
  "wf_tensor t = (length (vals t) = prod_list (shape t))"

text \<open>\<open>math_ops.reduce_sum\<close> and \<open>math_ops.trace\<close> (the sum of the main diagonal).\<close>

definition reduce_sum :: "tensor \<Rightarrow> real" where
  "reduce_sum t = sum_list (vals t)"

definition trace :: "tensor \<Rightarrow> real" where
  "trace t =
     (let r = shape t ! 0; c = shape t ! 1
      in sum_list (map (\<lambda>i. vals t ! (i * c + i)) [0..<min r c]))"

subsection \<open>compute_pi_tracenorm\<close>

definition trace_of_cov :: "tensor \<Rightarrow> error + real" where
  "trace_of_cov cov =
     (if length (shape cov) = 1 then Inr (reduce_sum cov)
      else if length (shape cov) = 2 then Inr (trace cov)
      else Inl ValueError)"

text \<open>\<open>cov.shape.as_list()[0]\<close>: a tensor of rank 0 has an empty shape list.\<close>

definition shape0 :: "tensor \<Rightarrow> error + nat" where
  "shape0 t = (case shape t of [] \<Rightarrow> Inl IndexError | d # _ \<Rightarrow> Inr d)"

text \<open>
  The operands of each product are evaluated left to right, and the left norm before the
  right one, so the first failing step decides the exception.
\<close>

definition compute_pi_tracenorm :: "tensor \<Rightarrow> tensor \<Rightarrow> error + fval" where
  "compute_pi_tracenorm left_cov right_cov =
     (case trace_of_cov left_cov of
        Inl e \<Rightarrow> Inl e
      | Inr tr_l \<Rightarrow>
     (case shape0 right_cov of
        Inl e \<Rightarrow> Inl e
      | Inr dr \<Rightarrow>
     (case trace_of_cov right_cov of
        Inl e \<Rightarrow> Inl e
      | Inr tr_r \<Rightarrow>
     (case shape0 left_cov of
        Inl e \<Rightarrow> Inl e
      | Inr dl \<Rightarrow>
          (let left_norm = Fin (tr_l * real dr);
               right_norm = Fin (tr_r * real dl)
           in Inr (fsqrt (fdiv left_norm right_norm)))))))"

subsection \<open>compute_pi_adjusted_damping\<close>

definition PI_OFF_NAME :: string where
  "PI_OFF_NAME = ''off''"

definition PI_TRACENORM_NAME :: string where
  "PI_TRACENORM_NAME = ''tracenorm''"

text \<open>
  The global \<open>PI_TYPE\<close> is the first argument. The function has no \<open>else\<close> branch: with
  any other mode the body ends without a \<open>return\<close>, which in Python returns \<open>None\<close>.
\<close>

definition compute_pi_adjusted_damping ::
  "string \<Rightarrow> tensor \<Rightarrow> tensor \<Rightarrow> real \<Rightarrow> error + (fval \<times> fval) option" where
  "compute_pi_adjusted_damping PI_TYPE left_cov right_cov damping =
     (if PI_TYPE = PI_TRACENORM_NAME then
        (case compute_pi_tracenorm left_cov right_cov of
           Inl e \<Rightarrow> Inl e
         | Inr pi_val \<Rightarrow> Inr (Some (fmul (Fin damping) pi_val, fdiv (Fin damping) pi_val)))
      else if PI_TYPE = PI_OFF_NAME then Inr (Some (Fin damping, Fin damping))
      else Inr None)"

section \<open>Convolution locations\<close>

text \<open>
  What \<open>np.prod\<close> returns: a 64-bit integer for a list of Python ints that is not empty
  (the product wraps around), and the float \<open>1.0\<close> for the empty list.
\<close>

datatype npnum = NpInt int | NpFloat fval

definition wrap64 :: "int \<Rightarrow> int" where
  "wrap64 x = (x + 2 ^ 63) mod 2 ^ 64 - 2 ^ 63"

definition np_prod :: "int list \<Rightarrow> npnum" where
  "np_prod xs = (if xs = [] then NpFloat (Fin 1) else NpInt (wrap64 (prod_list xs)))"

fun ffloor :: "fval \<Rightarrow> fval" where
  "ffloor (Fin a) = Fin (of_int \<lfloor>a\<rfloor>)"
| "ffloor x = x"

fun np_to_fval :: "npnum \<Rightarrow> fval" where
  "np_to_fval (NpInt a) = Fin (of_int a)"
| "np_to_fval (NpFloat x) = x"

text \<open>
  \<open>//\<close> on numpy scalars: between two integers the floor of the quotient, and 0 (with a
  warning, not an exception) when the divisor is 0; as soon as one operand is a float,
  the floor of the float quotient.
\<close>

fun np_floordiv :: "npnum \<Rightarrow> npnum \<Rightarrow> npnum" where
  "np_floordiv (NpInt a) (NpInt b) = NpInt (if b = 0 then 0 else wrap64 (a div b))"
| "np_floordiv x y = NpFloat (ffloor (fdiv (np_to_fval x) (np_to_fval y)))"

text \<open>\<open>input_shape[1:-1]\<close>: everything but the batch and the channel dimension.\<close>

definition spatial_dims :: "int list \<Rightarrow> int list" where
  "spatial_dims input_shape = butlast (drop 1 input_shape)"

definition num_conv_locations :: "int list \<Rightarrow> int list option \<Rightarrow> npnum" where
  "num_conv_locations input_shape strides =
     (let spatial_input_locations = np_prod (spatial_dims input_shape);
          spatial_strides_divisor =
            (case strides of None \<Rightarrow> NpInt 1 | Some s \<Rightarrow> np_prod s)
      in np_floordiv spatial_input_locations spatial_strides_divisor)"

subsection \<open>Covariances used to state the properties of pi\<close>

text \<open>
  The trace in the specification's words: the sum of the entries of a rank-1 (diagonal)
  array, the sum of the entries \<open>(i, i)\<close> of a rank-2 array.
\<close>

definition entry2 :: "tensor \<Rightarrow> nat \<Rightarrow> nat \<Rightarrow> real" where
  "entry2 t i j = vals t ! (i * (shape t ! 1) + j)"

definition spec_trace :: "tensor \<Rightarrow> real" where
  "spec_trace t =
     (if length (shape t) = 1 then sum_list (vals t)
      else sum (\<lambda>i. entry2 t i i) {0..<min (shape t ! 0) (shape t ! 1)})"

text \<open>The matrix \<open>c * I\<close> of dimension \<open>m\<close>, as a full matrix and as its diagonal.\<close>

definition scaled_identity :: "real \<Rightarrow> nat \<Rightarrow> tensor" where
  "scaled_identity c m =
     \<lparr>shape = [m, m],
      vals = concat (map (\<lambda>i. map (\<lambda>j. if i = j then c else 0) [0..<m]) [0..<m])\<rparr>"

definition scaled_diagonal :: "real \<Rightarrow> nat \<Rightarrow> tensor" where
  "scaled_diagonal c m = \<lparr>shape = [m], vals = replicate m c\<rparr>"

section \<open>Temporal series approximation\<close>

subsection \<open>Matrices of the array library\<close>

text \<open>
  A rank-2 tensor as the list of its rows, a rank-1 tensor as a list. The operations
  below are those of the array library on operands whose shapes fit, which is what the
  quantities of well-formed factors give; broadcasting and the library's rejection of
  operands that do not fit are not modelled.
\<close>

type_synonym vec = "fval list"
type_synonym mat = "fval list list"

definition dot :: "vec \<Rightarrow> vec \<Rightarrow> fval" where
  "dot u v = foldr fadd (map2 fmul u v) (Fin 0)"

text \<open>\<open>math_ops.matmul(a, b, transpose_a, transpose_b)\<close>.\<close>

definition matmul :: "mat \<Rightarrow> mat \<Rightarrow> bool \<Rightarrow> bool \<Rightarrow> mat" where
  "matmul a b transpose_a transpose_b =
     (let a' = (if transpose_a then transpose a else a);
          b' = (if transpose_b then transpose b else b)
      in map (\<lambda>row. map (\<lambda>col. dot row col) (transpose b')) a')"

text \<open>An elementwise binary operation, and the division of every entry by a scalar.\<close>

definition elementwise :: "(fval \<Rightarrow> fval \<Rightarrow> fval) \<Rightarrow> mat \<Rightarrow> mat \<Rightarrow> mat" where
  "elementwise f a b = map2 (map2 f) a b"

definition div_scalar :: "mat \<Rightarrow> fval \<Rightarrow> mat" where
  "div_scalar a s = map (map (\<lambda>z. fdiv z s)) a"

text \<open>
  \<open>array_ops.reshape(u, [int(u.shape[0]), -1]) * v\<close>: a column times a row, which
  broadcasts to the outer product.
\<close>

definition outer :: "vec \<Rightarrow> vec \<Rightarrow> mat" where
  "outer u v = map (\<lambda>x. map (\<lambda>y. fmul x y) v) u"

text \<open>\<open>math_ops.cast\<close> of a boolean to the float type.\<close>

definition cast_bool :: "bool \<Rightarrow> fval" where
  "cast_bool b = (if b then Fin 1 else Fin 0)"

text \<open>
  \<open>utils.layer_params_to_mat2d\<close> and \<open>utils.mat2d_to_layer_params\<close> for the parameters
  of a layer without bias, a single rank-2 weight tensor: neither changes it.
\<close>

definition layer_params_to_mat2d :: "mat \<Rightarrow> mat" where
  "layer_params_to_mat2d vector = vector"

definition mat2d_to_layer_params :: "mat \<Rightarrow> mat \<Rightarrow> mat" where
  "mat2d_to_layer_params vector_template mat2d = mat2d"

subsection \<open>FullyConnectedSeriesFB\<close>

text \<open>
  A factor is an object of another module. The block only asks it to register
  quantities and reads them back, so a factor is the quantities it would return and the
  log of the registrations it received.
\<close>

datatype factor_call = RegisterOption1Quants | RegisterOption2Quants | RegisterCovDt1

record factor =
  option1quants :: "mat \<times> vec"
  option2quants :: "mat \<times> mat \<times> vec"
  calls :: "factor_call list"

text \<open>
  The attributes of the block that its two methods read. \<open>fb_option\<close> is the value of
  \<open>self._option\<close> (\<open>SeriesFBApproximation.option1\<close> is 1 and \<open>option2\<close> is 2, an
  \<open>IntEnum\<close>); the factors are absent until \<open>instantiate_factors\<close> has run.
\<close>

record series_fb =
  fb_option :: int
  fb_num_uses :: "nat option"
  fb_input_factor :: "factor option"
  fb_output_factor :: "factor option"

definition record_call :: "factor_call \<Rightarrow> factor \<Rightarrow> factor" where
  "record_call c f = f\<lparr>calls := calls f @ [c]\<rparr>"

definition series_register_matpower :: "series_fb \<Rightarrow> real \<Rightarrow> error + series_fb" where
  "series_register_matpower self exponent =
     (if exponent \<noteq> - 1 then Inl NotImplementedError
      else if fb_option self = 1 then
        (case fb_input_factor self of
           None \<Rightarrow> Inl AttributeError
         | Some fa \<Rightarrow>
        (case fb_output_factor self of
           None \<Rightarrow> Inl AttributeError
         | Some fg \<Rightarrow>
             Inr (self\<lparr>fb_input_factor := Some (record_call RegisterOption1Quants fa),
                       fb_output_factor := Some (record_call RegisterOption1Quants fg)\<rparr>)))
      else if fb_option self = 2 then
        (case fb_input_factor self of
           None \<Rightarrow> Inl AttributeError
         | Some fa \<Rightarrow>
        (case fb_output_factor self of
           None \<Rightarrow> Inl AttributeError
         | Some fg \<Rightarrow>
             Inr (self\<lparr>fb_input_factor := Some (record_call RegisterOption2Quants fa),
                       fb_output_factor := Some (record_call RegisterOption2Quants fg)\<rparr>)))
      else Inl ValueError)"

text \<open>The decay kernel of Option 1, the local function \<open>gamma\<close>, with \<open>T\<close> the number of time-steps.\<close>

definition gamma :: "nat \<Rightarrow> fval \<Rightarrow> fval" where
  "gamma T x =
     fdiv (fpow (fsub (Fin 1) x) 2)
          (fsub (fmul (Fin (real T)) (fsub (Fin 1) (fpow x 2)))
                (fmul (fmul (Fin 2) x) (fsub (Fin 1) (fpow x T))))"

definition option1_kernel :: "nat \<Rightarrow> vec \<Rightarrow> vec \<Rightarrow> mat" where
  "option1_kernel T psi_G psi_A = map (map (gamma T)) (outer psi_G psi_A)"

definition series_option1 :: "nat \<Rightarrow> mat \<times> vec \<Rightarrow> mat \<times> vec \<Rightarrow> mat \<Rightarrow> mat" where
  "series_option1 T quants_A quants_G Z0 =
     (case quants_A of (L_A, psi_A) \<Rightarrow>
      case quants_G of (L_G, psi_G) \<Rightarrow>
        (let Y = option1_kernel T psi_G psi_A;
             Z1 = matmul L_G (matmul Z0 L_A False False) True False;
             Z2 = elementwise fmul Z1 Y;
             Z3 = matmul L_G (matmul Z2 L_A False True) False False
         in Z3))"

text \<open>
  Option 2. The denominator \<open>1 - mu_G * mu_A^T\<close>, the replacement of its zeros
  (\<open>tmp += 1.0 * cast(equal(tmp, 0.0))\<close>), and the passes around the division.
\<close>

definition option2_denominator :: "vec \<Rightarrow> vec \<Rightarrow> mat" where
  "option2_denominator mu_G mu_A = map (map (\<lambda>p. fsub (Fin 1) p)) (outer mu_G mu_A)"

definition guard_zeros :: "mat \<Rightarrow> mat" where
  "guard_zeros tmp =
     elementwise fadd tmp (map (map (\<lambda>t. fmul (Fin 1) (cast_bool (t = Fin 0)))) tmp)"

text \<open>The two passes: \<open>Z - P_G Z P_A^T\<close> then \<open>K_G^T Z K_A\<close>, and their transposed versions.\<close>

definition option2_forward :: "mat \<times> mat \<times> vec \<Rightarrow> mat \<times> mat \<times> vec \<Rightarrow> mat \<Rightarrow> mat" where
  "option2_forward quants_A quants_G Z0 =
     (case quants_A of (P_A, K_A, mu_A) \<Rightarrow>
      case quants_G of (P_G, K_G, mu_G) \<Rightarrow>
        (let Z1 = elementwise fsub Z0 (matmul P_G (matmul Z0 P_A False True) False False);
             Z2 = matmul K_G (matmul Z1 K_A False False) True False
         in Z2))"

definition option2_backward :: "mat \<times> mat \<times> vec \<Rightarrow> mat \<times> mat \<times> vec \<Rightarrow> mat \<Rightarrow> mat" where
  "option2_backward quants_A quants_G Z3 =
     (case quants_A of (P_A, K_A, mu_A) \<Rightarrow>
      case quants_G of (P_G, K_G, mu_G) \<Rightarrow>
        (let Z4 = matmul K_G (matmul Z3 K_A False True) False False;
             Z5 = elementwise fsub Z4 (matmul P_G (matmul Z4 P_A False False) True False)
         in Z5))"

definition series_option2_unscaled ::
  "mat \<times> mat \<times> vec \<Rightarrow> mat \<times> mat \<times> vec \<Rightarrow> mat \<Rightarrow> mat" where
  "series_option2_unscaled quants_A quants_G Z0 =
     (let Z2 = option2_forward quants_A quants_G Z0;
          tmp = guard_zeros (option2_denominator (snd (snd quants_G)) (snd (snd quants_A)));
          Z3 = elementwise fdiv Z2 tmp
      in option2_backward quants_A quants_G Z3)"

definition series_option2 ::
  "nat \<Rightarrow> mat \<times> mat \<times> vec \<Rightarrow> mat \<times> mat \<times> vec \<Rightarrow> mat \<Rightarrow> mat" where
  "series_option2 T quants_A quants_G Z0 =
     div_scalar (series_option2_unscaled quants_A quants_G Z0) (Fin (real T))"

text \<open>
  \<open>multiply_matpower\<close>. Without a number of uses, Option 1 fails at the product
  \<open>T * ...\<close> inside \<open>gamma\<close> and Option 2 at the final cast of \<open>T\<close>. With an option that is
  neither 1 nor 2 no branch is taken and the vector comes back unchanged.
\<close>

definition series_multiply_matpower :: "series_fb \<Rightarrow> mat \<Rightarrow> real \<Rightarrow> error + mat" where
  "series_multiply_matpower self vector exponent =
     (if exponent \<noteq> - 1 then Inl NotImplementedError
      else
        (let Z = transpose (layer_params_to_mat2d vector) in
         if fb_option self = 1 then
           (case fb_input_factor self of
              None \<Rightarrow> Inl AttributeError
            | Some fa \<Rightarrow>
           (case fb_output_factor self of
              None \<Rightarrow> Inl AttributeError
            | Some fg \<Rightarrow>
           (case fb_num_uses self of
              None \<Rightarrow> Inl TypeError
            | Some T \<Rightarrow>
                Inr (mat2d_to_layer_params vector
                      (transpose (series_option1 T (option1quants fa) (option1quants fg) Z))))))
         else if fb_option self = 2 then
           (case fb_input_factor self of
              None \<Rightarrow> Inl AttributeError
            | Some fa \<Rightarrow>
           (case fb_output_factor self of
              None \<Rightarrow> Inl AttributeError
            | Some fg \<Rightarrow>
           (case fb_num_uses self of
              None \<Rightarrow> Inl ValueError
            | Some T \<Rightarrow>
                Inr (mat2d_to_layer_params vector
                      (transpose (series_option2 T (option2quants fa) (option2quants fg) Z))))))
         else Inr (mat2d_to_layer_params vector (transpose Z))))"

section \<open>Tower and use normalization\<close>

text \<open>
  The tensors registered with a block are handles of the array library (the type
  variable \<open>'a\<close>): the normalization looks at how they are nested, never inside one.
  What the factors receive is either a datum as it was registered or a
  \<open>utils.PartitionedTensor\<close> built from a list of tensors.
\<close>

datatype ('a, 'b) packed = Plain 'b | PartitionedTensor "'a list"

subsection \<open>InputOutputMultiTower\<close>

text \<open>
  \<open>_process_data\<close>, with the global \<open>fisher_factors.TOWER_STRATEGY\<close> as first argument:
  \<open>inputs\<close> is \<open>self._inputs\<close>, a list over towers, and \<open>grads_list\<close> a list over sources of
  such lists.
\<close>

definition process_data ::
  "string \<Rightarrow> 'a list \<Rightarrow> 'a list list
     \<Rightarrow> error + (('a, 'a) packed list \<times> ('a, 'a) packed list list)" where
  "process_data TOWER_STRATEGY inputs grads_list =
     (if TOWER_STRATEGY = ''concat'' then
        Inr ([PartitionedTensor inputs],
             map (\<lambda>grads. [PartitionedTensor grads]) grads_list)
      else if TOWER_STRATEGY = ''separate'' then
        Inr (map Plain inputs, map (map Plain) grads_list)
      else Inl ValueError)"

subsection \<open>InputOutputMultiTowerMultiUse\<close>

text \<open>
  The data of one tower: a list (or tuple) of tensors, one per use, or a single tensor
  with the uses folded into the batch dimension.
\<close>

datatype 'a use_data = Folded 'a | PerUse "'a list"

fun the_uses :: "'a use_data \<Rightarrow> 'a list" where
  "the_uses (PerUse us) = us"
| "the_uses (Folded t) = []"

text \<open>
  \<open>all(len(x) == num_uses for x in xs)\<close>: it stops at the first length that differs, and
  \<open>len\<close> of a tensor raises \<open>TypeError\<close>.
\<close>

fun all_len :: "nat \<Rightarrow> 'a use_data list \<Rightarrow> error + bool" where
  "all_len n [] = Inr True"
| "all_len n (Folded t # xs) = Inl TypeError"
| "all_len n (PerUse us # xs) = (if length us = n then all_len n xs else Inr False)"

text \<open>\<open>zip(*xss)\<close>, as long as the shortest list, and \<open>nest.flatten\<close> of its result.\<close>

definition zip_star :: "'a list list \<Rightarrow> 'a list list" where
  "zip_star xss =
     (case xss of
        [] \<Rightarrow> []
      | xs # rest \<Rightarrow>
          map (\<lambda>i. map (\<lambda>ys. ys ! i) xss) [0..<foldr min (map length rest) (length xs)])"

definition uses_major :: "'a use_data list \<Rightarrow> 'a list" where
  "uses_major towers = concat (zip_star (map the_uses towers))"

text \<open>
  \<open>num_uses\<close> inferred from a datum given per use, against the value of \<open>self._num_uses\<close>.
\<close>

definition infer_num_uses :: "int option \<Rightarrow> nat \<Rightarrow> error + int option" where
  "infer_num_uses self_num_uses num_uses =
     (if self_num_uses \<noteq> None \<and> self_num_uses \<noteq> Some (int num_uses) then Inl ValueError
      else Inr (Some (int num_uses)))"

text \<open>The first half of \<open>_process_data\<close>: \<open>self._inputs\<close>, and the new \<open>self._num_uses\<close>.\<close>

definition process_inputs ::
  "string \<Rightarrow> int option \<Rightarrow> 'a use_data list
     \<Rightarrow> error + (('a, 'a use_data) packed list \<times> int option)" where
  "process_inputs TOWER_STRATEGY self_num_uses inputs =
     (case inputs of
        [] \<Rightarrow> Inl IndexError
      | Folded t # rest \<Rightarrow> Inr (map Plain inputs, self_num_uses)
      | PerUse us # rest \<Rightarrow>
          (case infer_num_uses self_num_uses (length us) of
             Inl e \<Rightarrow> Inl e
           | Inr new_num_uses \<Rightarrow>
          (case all_len (length us) inputs of
             Inl e \<Rightarrow> Inl e
           | Inr False \<Rightarrow> Inl ValueError
           | Inr True \<Rightarrow>
               if TOWER_STRATEGY = ''concat'' then
                 Inr ([PartitionedTensor (uses_major inputs)], new_num_uses)
               else if TOWER_STRATEGY = ''separate'' then
                 Inr (map (\<lambda>input. PartitionedTensor (the_uses input)) inputs, new_num_uses)
               else Inl ValueError)))"

text \<open>The second half, on \<open>grads_list\<close>, decided by \<open>grads_list[0][0]\<close>.\<close>

definition process_grads ::
  "string \<Rightarrow> int option \<Rightarrow> 'a use_data list list
     \<Rightarrow> error + (('a, 'a use_data) packed list list \<times> int option)" where
  "process_grads TOWER_STRATEGY self_num_uses grads_list =
     (case grads_list of
        [] \<Rightarrow> Inl IndexError
      | [] # others \<Rightarrow> Inl IndexError
      | (Folded t # rest) # others \<Rightarrow> Inr (map (map Plain) grads_list, self_num_uses)
      | (PerUse us # rest) # others \<Rightarrow>
          (case infer_num_uses self_num_uses (length us) of
             Inl e \<Rightarrow> Inl e
           | Inr new_num_uses \<Rightarrow>
          (case all_len (length us) (concat grads_list) of
             Inl e \<Rightarrow> Inl e
           | Inr False \<Rightarrow> Inl ValueError
           | Inr True \<Rightarrow>
               if TOWER_STRATEGY = ''concat'' then
                 Inr (map (\<lambda>grads. [PartitionedTensor (uses_major grads)]) grads_list,
                      new_num_uses)
               else if TOWER_STRATEGY = ''separate'' then
                 Inr (map (map (\<lambda>grad. PartitionedTensor (the_uses grad))) grads_list,
                      new_num_uses)
               else Inl ValueError)))"

text \<open>
  \<open>_process_data\<close> of the multi-use mix-in: the processed inputs and gradients, and the
  value \<open>self._num_uses\<close> is left with.
\<close>

definition process_data_multi_use ::
  "string \<Rightarrow> int option \<Rightarrow> 'a use_data list \<Rightarrow> 'a use_data list list
     \<Rightarrow> error + (('a, 'a use_data) packed list \<times> ('a, 'a use_data) packed list list
                 \<times> int option)" where
  "process_data_multi_use TOWER_STRATEGY self_num_uses inputs grads_list =
     (case process_inputs TOWER_STRATEGY self_num_uses inputs of
        Inl e \<Rightarrow> Inl e
      | Inr (inputs', num_uses1) \<Rightarrow>
     (case process_grads TOWER_STRATEGY num_uses1 grads_list of
        Inl e \<Rightarrow> Inl e
      | Inr (grads_list', num_uses2) \<Rightarrow>
          if num_uses2 = None then Inl ValueError
          else Inr (inputs', grads_list', num_uses2)))"

section \<open>Kronecker-product blocks\<close>

text \<open>The classes that inherit \<open>full_fisher_block\<close> from \<open>KroneckerProductFB\<close>.\<close>

datatype kfb_class =
    KroneckerProductFB
  | EmbeddingKFACFB
  | FullyConnectedKFACBasicFB
  | ConvKFCBasicFB
  | DepthwiseConvKFCBasicFB
  | FullyConnectedMultiIndepFB
  | ConvKFCBasicMultiIndepFB
  | EmbeddingKFACMultiIndepFB
  | FullyConnectedSeriesFB

text \<open>
  The attributes \<open>full_fisher_block\<close> reads: the class, \<open>self._num_locations\<close> (an attribute
  only \<open>instantiate_factors\<close> of the convolutional classes sets), \<open>self._num_uses\<close>, and what
  \<open>get_cov()\<close> of the two factors returns (absent before \<open>instantiate_factors\<close>).
\<close>

record kron_fb =
  kfb_class :: kfb_class
  kfb_num_locations :: "npnum option"
  kfb_num_uses :: "int option"
  kfb_input_cov :: "mat option"
  kfb_output_cov :: "mat option"

text \<open>A numpy number times a Python int.\<close>

fun np_mul_int :: "npnum \<Rightarrow> int \<Rightarrow> npnum" where
  "np_mul_int (NpInt a) u = NpInt (wrap64 (a * u))"
| "np_mul_int (NpFloat x) u = NpFloat (fmul x (Fin (of_int u)))"

text \<open>The property \<open>_renorm_coeff\<close>, with the override of each class.\<close>

definition renorm_coeff :: "kron_fb \<Rightarrow> error + fval" where
  "renorm_coeff self =
     (case kfb_class self of
        KroneckerProductFB \<Rightarrow> Inr (Fin 1)
      | EmbeddingKFACFB \<Rightarrow> Inr (Fin 1)
      | FullyConnectedKFACBasicFB \<Rightarrow> Inr (Fin 1)
      | ConvKFCBasicFB \<Rightarrow>
          (case kfb_num_locations self of
             None \<Rightarrow> Inl AttributeError
           | Some l \<Rightarrow> Inr (np_to_fval l))
      | DepthwiseConvKFCBasicFB \<Rightarrow>
          (case kfb_num_locations self of
             None \<Rightarrow> Inl AttributeError
           | Some l \<Rightarrow> Inr (np_to_fval l))
      | FullyConnectedMultiIndepFB \<Rightarrow>
          (case kfb_num_uses self of
             None \<Rightarrow> Inl TypeError
           | Some u \<Rightarrow> Inr (Fin (of_int u)))
      | ConvKFCBasicMultiIndepFB \<Rightarrow>
          (case kfb_num_locations self of
             None \<Rightarrow> Inl AttributeError
           | Some l \<Rightarrow>
          (case kfb_num_uses self of
             None \<Rightarrow> Inl TypeError
           | Some u \<Rightarrow> Inr (np_to_fval (np_mul_int l u))))
      | EmbeddingKFACMultiIndepFB \<Rightarrow>
          (case kfb_num_uses self of
             None \<Rightarrow> Inl TypeError
           | Some u \<Rightarrow> Inr (Fin (of_int u)))
      | FullyConnectedSeriesFB \<Rightarrow> Inl AssertionError)"

text \<open>
  \<open>utils.kronecker_product\<close> of two matrices (entry \<open>(i p + k, j q + l)\<close> is the product of
  the entries \<open>(i, j)\<close> and \<open>(k, l)\<close>), and a scalar times a matrix.
\<close>

definition kronecker_product :: "mat \<Rightarrow> mat \<Rightarrow> mat" where
  "kronecker_product mat1 mat2 =
     concat (map (\<lambda>row1. map (\<lambda>row2. concat (map (\<lambda>a. map (\<lambda>b. fmul a b) row2) row1)) mat2)
                 mat1)"

definition scale :: "fval \<Rightarrow> mat \<Rightarrow> mat" where
  "scale c m = map (map (\<lambda>x. fmul c x)) m"

definition full_fisher_block :: "kron_fb \<Rightarrow> error + mat" where
  "full_fisher_block self =
     (case kfb_input_cov self of
        None \<Rightarrow> Inl AttributeError
      | Some left_factor \<Rightarrow>
     (case kfb_output_cov self of
        None \<Rightarrow> Inl AttributeError
      | Some right_factor \<Rightarrow>
     (case renorm_coeff self of
        Inl e \<Rightarrow> Inl e
      | Inr c \<Rightarrow> Inr (scale c (kronecker_product left_factor right_factor)))))"

subsection \<open>instantiate_factors of the convolutional blocks\<close>

text \<open>
  A registered tensor is represented by its static shape, the only attribute of it that
  \<open>instantiate_factors\<close> reads. The factors are made by the layer collection, outside this
  module: \<open>input_cov\<close> and \<open>output_cov\<close> are what their \<open>get_cov()\<close> returns.
\<close>

type_synonym tensor_ref = "int list"

text \<open>
  \<open>ConvKFCBasicFB.instantiate_factors\<close>: the number of locations comes from the shape of
  the first registered tower, \<open>self._inputs[0].shape.as_list()\<close>, read before
  \<open>_process_data\<close>.
\<close>

definition conv_kfc_basic_instantiate_factors ::
  "string \<Rightarrow> int list option \<Rightarrow> mat \<Rightarrow> mat \<Rightarrow> kron_fb
     \<Rightarrow> tensor_ref list \<Rightarrow> tensor_ref list list \<Rightarrow> error + kron_fb" where
  "conv_kfc_basic_instantiate_factors TOWER_STRATEGY strides input_cov output_cov self
       inputs grads_list =
     (case inputs of
        [] \<Rightarrow> Inl IndexError
      | first_input # _ \<Rightarrow>
          (let num_locations = num_conv_locations first_input strides in
           case process_data TOWER_STRATEGY inputs grads_list of
             Inl e \<Rightarrow> Inl e
           | Inr processed \<Rightarrow>
               Inr (self\<lparr>kfb_num_locations := Some num_locations,
                         kfb_input_cov := Some input_cov,
                         kfb_output_cov := Some output_cov\<rparr>)))"

text \<open>
  \<open>inputs.shape\<close> where \<open>inputs\<close> is a Python list or tuple: neither type has that
  attribute, so the access raises \<open>AttributeError\<close>.
\<close>

definition shape_of_sequence :: "'b list \<Rightarrow> error + int list" where
  "shape_of_sequence xs = Inl AttributeError"

text \<open>
  \<open>ConvKFCBasicMultiIndepFB.instantiate_factors\<close>: here the shape is read after
  \<open>_process_data\<close>, as \<open>inputs.shape.as_list()\<close>, from the list or tuple over towers that
  \<open>_process_data\<close> returns on each of its paths.
\<close>

definition conv_kfc_basic_multi_indep_instantiate_factors ::
  "string \<Rightarrow> int list option \<Rightarrow> mat \<Rightarrow> mat \<Rightarrow> kron_fb
     \<Rightarrow> tensor_ref use_data list \<Rightarrow> tensor_ref use_data list list \<Rightarrow> error + kron_fb" where
  "conv_kfc_basic_multi_indep_instantiate_factors TOWER_STRATEGY strides input_cov output_cov
       self inputs grads_list =
     (case process_data_multi_use TOWER_STRATEGY (kfb_num_uses self) inputs grads_list of
        Inl e \<Rightarrow> Inl e
      | Inr (inputs', grads_list', num_uses) \<Rightarrow>
     (case shape_of_sequence inputs' of
        Inl e \<Rightarrow> Inl e
      | Inr input_shape \<Rightarrow>
          Inr (self\<lparr>kfb_num_uses := num_uses,
                    kfb_num_locations := Some (num_conv_locations input_shape strides),
                    kfb_input_cov := Some input_cov,
                    kfb_output_cov := Some output_cov\<rparr>)))"

section \<open>Depthwise convolution adapter\<close>



text \<open>
  The operations of the array library the two transforms use, on operands whose other
  dimensions agree (as those built below do). \<open>array_ops.concat\<close> rejects an empty list.
\<close>

definition tabulate2 :: "nat \<Rightarrow> nat \<Rightarrow> (nat \<Rightarrow> nat \<Rightarrow> 'a) \<Rightarrow> 'a list list" where
  "tabulate2 h w f = map (\<lambda>a. map (\<lambda>b. f a b) [0..<w]) [0..<h]"






subsection \<open>depthwise_conv2d_filter_to_conv2d_filter\<close>



subsection \<open>conv2d_filter_to_depthwise_conv2d_filter\<close>




section \<open>Properties\<close>

subsection \<open>Damping utilities\<close>

text \<open>
  Claim C1, as stated, fails: the product of the two returned values is not the squared
  damping for every pair of covariances. With a left covariance of trace 0 the constant
  pi is 0 and the pair is (0, infinity), whose product is not a number.
\<close>

theorem pi_adjusted_damping_zero_trace_counterexample:
  "compute_pi_adjusted_damping PI_TRACENORM_NAME
      \<lparr>shape = [1], vals = [0]\<rparr> \<lparr>shape = [1], vals = [1]\<rparr> 1
     = Inr (Some (Fin 0, PInf)) \<and>
   fmul (Fin 0) PInf \<noteq> Fin (1\<^sup>2)"
  by (simp add: compute_pi_adjusted_damping_def compute_pi_tracenorm_def trace_of_cov_def
      reduce_sum_def shape0_def inf_of_sign_def)

text \<open>
  Claim C1, amended: whenever pi is a finite number other than 0, the "tracenorm" mode
  returns (damping * pi, damping / pi), and the "off" mode always returns
  (damping, damping); in both cases the product of the two values is damping squared.
\<close>

theorem pi_adjusted_damping_product:
  "(compute_pi_tracenorm left_cov right_cov = Inr (Fin p) \<and> p \<noteq> 0 \<longrightarrow>
      compute_pi_adjusted_damping PI_TRACENORM_NAME left_cov right_cov damping
        = Inr (Some (Fin (damping * p), Fin (damping / p))) \<and>
      fmul (Fin (damping * p)) (Fin (damping / p)) = Fin (damping\<^sup>2)) \<and>
   compute_pi_adjusted_damping PI_OFF_NAME left_cov right_cov damping
        = Inr (Some (Fin damping, Fin damping)) \<and>
   fmul (Fin damping) (Fin damping) = Fin (damping\<^sup>2)"
  by (simp add: compute_pi_adjusted_damping_def PI_TRACENORM_NAME_def PI_OFF_NAME_def
      power2_eq_square)

theorem pi_adjusted_damping_product_witness:
  "compute_pi_tracenorm \<lparr>shape = [1], vals = [4]\<rparr> \<lparr>shape = [1], vals = [1]\<rparr>
     = Inr (Fin 2) \<and>
   (2::real) \<noteq> 0 \<and>
   compute_pi_adjusted_damping PI_TRACENORM_NAME
      \<lparr>shape = [1], vals = [4]\<rparr> \<lparr>shape = [1], vals = [1]\<rparr> 3
     = Inr (Some (Fin 6, Fin (3 / 2))) \<and>
   fmul (Fin 6) (Fin (3 / 2)) = Fin 9"
proof -
  have h: "compute_pi_tracenorm \<lparr>shape = [1], vals = [4]\<rparr> \<lparr>shape = [1], vals = [1]\<rparr>
             = Inr (Fin 2)"
    by (simp add: compute_pi_tracenorm_def trace_of_cov_def reduce_sum_def shape0_def)
  show ?thesis
    using h pi_adjusted_damping_product
      [of "\<lparr>shape = [1], vals = [4]\<rparr>" "\<lparr>shape = [1], vals = [1]\<rparr>" 2 3]
    by simp
qed

text \<open>
  Claim C10: with a mode that is neither "tracenorm" nor "off",
  \<open>compute_pi_adjusted_damping\<close> raises nothing and returns no pair: the result is
  Python's \<open>None\<close>.
\<close>

theorem pi_adjusted_damping_unknown_mode:
  "PI_TYPE \<noteq> PI_TRACENORM_NAME \<Longrightarrow> PI_TYPE \<noteq> PI_OFF_NAME \<Longrightarrow>
     compute_pi_adjusted_damping PI_TYPE left_cov right_cov damping = Inr None"
  by (simp add: compute_pi_adjusted_damping_def)

theorem pi_adjusted_damping_unknown_mode_witness:
  "''adaptive'' \<noteq> PI_TRACENORM_NAME \<and> ''adaptive'' \<noteq> PI_OFF_NAME \<and>
   compute_pi_adjusted_damping ''adaptive''
      \<lparr>shape = [1], vals = [2]\<rparr> \<lparr>shape = [1], vals = [3]\<rparr> 5 = Inr None"
  using pi_adjusted_damping_unknown_mode
    [of "''adaptive''" "\<lparr>shape = [1], vals = [2]\<rparr>" "\<lparr>shape = [1], vals = [3]\<rparr>" 5]
  by (simp add: PI_TRACENORM_NAME_def PI_OFF_NAME_def)

subsection \<open>Convolution locations\<close>

lemma wrap64_id: "- (2 ^ 63) \<le> x \<Longrightarrow> x < 2 ^ 63 \<Longrightarrow> wrap64 x = x"
  by (simp add: wrap64_def)

lemma int_div_in_range:
  fixes a b :: int
  assumes "0 \<le> a" "a < 2 ^ 63" "0 \<le> b"
  shows "- (2 ^ 63) \<le> a div b \<and> a div b < 2 ^ 63"
proof -
  obtain n m where nm: "a = int n" "b = int m"
    using assms by (metis zero_le_imp_eq_int)
  have "int (n div m) \<le> int n" by (simp add: div_le_dividend)
  then have le: "a div b \<le> a"
    using nm by (simp add: zdiv_int)
  have "0 \<le> int (n div m)" by simp
  then have ge: "0 \<le> a div b"
    unfolding nm zdiv_int .
  show ?thesis using le ge assms by auto
qed

text \<open>
  Claim C7: \<open>num_conv_locations\<close> returns the product of the spatial dimensions, floor
  divided by the product of the strides, and divided by 1 when \<open>strides\<close> is \<open>None\<close>
  (for an input with at least one spatial dimension, a stride list that is not empty, and
  products that fit the 64-bit integers of \<open>np.prod\<close>). A 1-D spatial input of length 10
  with stride 2 gives 5, and length 9 with stride 2 gives 4, whatever the batch and channel
  dimensions are.
\<close>

theorem num_conv_locations_floor_div:
  "(spatial_dims input_shape \<noteq> [] \<and> s \<noteq> [] \<and>
      0 \<le> prod_list (spatial_dims input_shape) \<and>
      prod_list (spatial_dims input_shape) < 2 ^ 63 \<and>
      0 \<le> prod_list s \<and> prod_list s < 2 ^ 63 \<longrightarrow>
      num_conv_locations input_shape (Some s)
        = NpInt (prod_list (spatial_dims input_shape) div prod_list s)) \<and>
   (spatial_dims input_shape \<noteq> [] \<and>
      0 \<le> prod_list (spatial_dims input_shape) \<and>
      prod_list (spatial_dims input_shape) < 2 ^ 63 \<longrightarrow>
      num_conv_locations input_shape None
        = NpInt (prod_list (spatial_dims input_shape) div 1)) \<and>
   spatial_dims [batch, 10, channels] = [10] \<and>
   num_conv_locations [batch, 10, channels] (Some [2]) = NpInt 5 \<and>
   spatial_dims [batch, 9, channels] = [9] \<and>
   num_conv_locations [batch, 9, channels] (Some [2]) = NpInt 4"
proof -
  have a: "num_conv_locations input_shape (Some s)
        = NpInt (prod_list (spatial_dims input_shape) div prod_list s)"
    if "spatial_dims input_shape \<noteq> []" "s \<noteq> []"
      "0 \<le> prod_list (spatial_dims input_shape)"
      "prod_list (spatial_dims input_shape) < 2 ^ 63"
      "0 \<le> prod_list s" "prod_list s < 2 ^ 63"
  proof -
    have w: "wrap64 (prod_list (spatial_dims input_shape) div prod_list s)
              = prod_list (spatial_dims input_shape) div prod_list s"
      using int_div_in_range [OF that(3) that(4) that(5)] by (intro wrap64_id) auto
    show ?thesis
      using that w by (simp add: num_conv_locations_def np_prod_def wrap64_id)
  qed
  have b: "num_conv_locations input_shape None
        = NpInt (prod_list (spatial_dims input_shape) div 1)"
    if "spatial_dims input_shape \<noteq> []"
      "0 \<le> prod_list (spatial_dims input_shape)"
      "prod_list (spatial_dims input_shape) < 2 ^ 63"
    using that by (simp add: num_conv_locations_def np_prod_def wrap64_id)
  have c: "num_conv_locations [batch, 10, channels] (Some [2]) = NpInt 5"
    by (simp add: num_conv_locations_def np_prod_def spatial_dims_def wrap64_def)
  have d: "num_conv_locations [batch, 9, channels] (Some [2]) = NpInt 4"
    by (simp add: num_conv_locations_def np_prod_def spatial_dims_def wrap64_def)
  show ?thesis using a b c d by (simp add: spatial_dims_def)
qed

theorem num_conv_locations_floor_div_witness:
  "spatial_dims [8, 32, 32, 3] = [32, 32] \<and>
   prod_list [32, 32 :: int] = 1024 \<and> prod_list [1, 2, 2, 1 :: int] = 4 \<and>
   num_conv_locations [8, 32, 32, 3] (Some [1, 2, 2, 1]) = NpInt 256 \<and>
   num_conv_locations [8, 32, 32, 3] None = NpInt 1024"
  using num_conv_locations_floor_div [of "[8, 32, 32, 3]" "[1, 2, 2, 1]"]
  by (simp add: spatial_dims_def)

subsection \<open>The constant pi\<close>

lemma nth_concat_rows:
  "\<forall>r \<in> set rows. length r = k \<Longrightarrow> i < length rows \<Longrightarrow> j < k \<Longrightarrow>
     concat rows ! (i * k + j) = rows ! i ! j"
proof (induction rows arbitrary: i)
  case Nil
  then show ?case by simp
next
  case (Cons r rows)
  show ?case
  proof (cases i)
    case 0
    then show ?thesis using Cons.prems by (simp add: nth_append)
  next
    case (Suc i')
    have "concat (r # rows) ! (i * k + j) = concat rows ! (i' * k + j)"
      using Cons.prems Suc by (simp add: nth_append)
    also have "\<dots> = rows ! i' ! j"
      using Cons.prems Suc by (intro Cons.IH) auto
    finally show ?thesis using Suc by simp
  qed
qed

lemma trace_eq_spec_trace: "length (shape t) = 2 \<Longrightarrow> trace t = spec_trace t"
  by (simp add: trace_def spec_trace_def entry2_def Let_def interv_sum_list_conv_sum_set_nat)

lemma trace_of_cov_rank:
  "length (shape t) = 1 \<or> length (shape t) = 2 \<Longrightarrow> trace_of_cov t = Inr (spec_trace t)"
  by (auto simp: trace_of_cov_def trace_eq_spec_trace reduce_sum_def spec_trace_def)

lemma shape0_rank:
  "length (shape t) = 1 \<or> length (shape t) = 2 \<Longrightarrow> shape0 t = Inr (hd (shape t))"
  by (cases "shape t") (auto simp: shape0_def)

lemma trace_scaled_identity: "trace (scaled_identity c m) = c * real m"
proof -
  let ?rows = "map (\<lambda>i. map (\<lambda>j. if i = j then c else 0) [0..<m]) [0..<m]"
  have "concat ?rows ! (i * m + i) = c" if "i < m" for i
  proof -
    have "concat ?rows ! (i * m + i) = ?rows ! i ! i"
      using that by (intro nth_concat_rows) auto
    then show ?thesis using that by simp
  qed
  then have s: "(\<Sum>i\<leftarrow>[0..<m]. concat ?rows ! (i * m + i)) = (\<Sum>i\<leftarrow>[0..<m]. c)"
    by (intro arg_cong [where f = sum_list] map_cong) auto
  show ?thesis
    by (simp add: trace_def scaled_identity_def s sum_list_triv)
qed

lemma trace_of_cov_scaled:
  "A = scaled_identity c m \<or> A = scaled_diagonal c m \<Longrightarrow>
     trace_of_cov A = Inr (c * real m) \<and> shape0 A = Inr m"
  by (auto simp: trace_of_cov_def trace_scaled_identity shape0_def reduce_sum_def
      scaled_diagonal_def sum_list_replicate)
     (simp_all add: scaled_identity_def)

text \<open>
  Claim C2: for arguments of rank 1 or 2, \<open>compute_pi_tracenorm A B\<close> returns
  \<open>sqrt ((trace A * n) / (trace B * m))\<close>, with \<open>m\<close> and \<open>n\<close> the leading dimensions of \<open>A\<close>
  and \<open>B\<close> and the trace as the specification words it; an argument of any other rank
  raises an exception; and on \<open>A = c * I\<close> of dimension \<open>m\<close> and \<open>B = I\<close> of dimension \<open>n\<close>
  (full or diagonal, of positive dimension) the result is \<open>sqrt c\<close>.
\<close>

theorem compute_pi_tracenorm_formula:
  "((length (shape A) = 1 \<or> length (shape A) = 2) \<and>
    (length (shape B) = 1 \<or> length (shape B) = 2) \<longrightarrow>
      compute_pi_tracenorm A B
        = Inr (fsqrt (fdiv (Fin (spec_trace A * real (hd (shape B))))
                           (Fin (spec_trace B * real (hd (shape A))))))) \<and>
   (\<not> (length (shape A) = 1 \<or> length (shape A) = 2) \<or>
    \<not> (length (shape B) = 1 \<or> length (shape B) = 2) \<longrightarrow>
      (\<exists>e. compute_pi_tracenorm A B = Inl e)) \<and>
   ((Ic = scaled_identity c m \<or> Ic = scaled_diagonal c m) \<and>
    (Iu = scaled_identity 1 n \<or> Iu = scaled_diagonal 1 n) \<and> 0 < m \<and> 0 < n \<longrightarrow>
      compute_pi_tracenorm Ic Iu = Inr (fsqrt (Fin c)))"
proof (intro conjI impI)
  assume "(length (shape A) = 1 \<or> length (shape A) = 2) \<and>
    (length (shape B) = 1 \<or> length (shape B) = 2)"
  then show "compute_pi_tracenorm A B
        = Inr (fsqrt (fdiv (Fin (spec_trace A * real (hd (shape B))))
                           (Fin (spec_trace B * real (hd (shape A))))))"
    by (simp add: compute_pi_tracenorm_def trace_of_cov_rank shape0_rank)
next
  assume "\<not> (length (shape A) = 1 \<or> length (shape A) = 2) \<or>
    \<not> (length (shape B) = 1 \<or> length (shape B) = 2)"
  then show "\<exists>e. compute_pi_tracenorm A B = Inl e"
    by (auto simp: compute_pi_tracenorm_def trace_of_cov_def split: sum.splits)
next
  assume h: "(Ic = scaled_identity c m \<or> Ic = scaled_diagonal c m) \<and>
    (Iu = scaled_identity 1 n \<or> Iu = scaled_diagonal 1 n) \<and> 0 < m \<and> 0 < n"
  have a: "trace_of_cov Ic = Inr (c * real m)" "shape0 Ic = Inr m"
    using h trace_of_cov_scaled [of Ic c m] by auto
  have b: "trace_of_cov Iu = Inr (1 * real n)" "shape0 Iu = Inr n"
    using h trace_of_cov_scaled [of Iu 1 n] by auto
  show "compute_pi_tracenorm Ic Iu = Inr (fsqrt (Fin c))"
    using h by (simp add: compute_pi_tracenorm_def a b)
qed

theorem compute_pi_tracenorm_formula_witness:
  "length (shape (scaled_identity 3 2)) = 2 \<and> length (shape (scaled_diagonal 1 3)) = 1 \<and>
   compute_pi_tracenorm (scaled_identity 3 2) (scaled_diagonal 1 3)
     = Inr (fsqrt (fdiv
         (Fin (spec_trace (scaled_identity 3 2) * real (hd (shape (scaled_diagonal 1 3)))))
         (Fin (spec_trace (scaled_diagonal 1 3) * real (hd (shape (scaled_identity 3 2))))))) \<and>
   compute_pi_tracenorm (scaled_identity 3 2) (scaled_diagonal 1 3) = Inr (Fin (sqrt 3)) \<and>
   length (shape \<lparr>shape = [1, 1, 1], vals = [5]\<rparr>) = 3 \<and>
   (\<exists>e. compute_pi_tracenorm \<lparr>shape = [1, 1, 1], vals = [5]\<rparr> (scaled_diagonal 1 3) = Inl e)"
proof -
  note t1 = compute_pi_tracenorm_formula
      [where A = "scaled_identity 3 2" and B = "scaled_diagonal 1 3"
         and Ic = "scaled_identity 3 2" and c = 3 and m = 2
         and Iu = "scaled_diagonal 1 3" and n = 3]
  note t2 = compute_pi_tracenorm_formula
      [where A = "\<lparr>shape = [1, 1, 1], vals = [5]\<rparr>" and B = "scaled_diagonal 1 3"]
  have r1: "length (shape (scaled_identity 3 2)) = 2"
    by (simp add: scaled_identity_def)
  have r2: "length (shape (scaled_diagonal 1 3)) = 1"
    by (simp add: scaled_diagonal_def)
  have r3: "length (shape \<lparr>shape = [1, 1, 1], vals = [5]\<rparr>) = 3"
    by simp
  have a: "compute_pi_tracenorm (scaled_identity 3 2) (scaled_diagonal 1 3)
     = Inr (fsqrt (fdiv
         (Fin (spec_trace (scaled_identity 3 2) * real (hd (shape (scaled_diagonal 1 3)))))
         (Fin (spec_trace (scaled_diagonal 1 3) * real (hd (shape (scaled_identity 3 2)))))))"
    using t1 r1 r2 by blast
  have "compute_pi_tracenorm (scaled_identity 3 2) (scaled_diagonal 1 3) = Inr (fsqrt (Fin 3))"
    using t1 [THEN conjunct2, THEN conjunct2] by simp
  then have b: "compute_pi_tracenorm (scaled_identity 3 2) (scaled_diagonal 1 3)
      = Inr (Fin (sqrt 3))"
    by simp
  have c: "\<exists>e. compute_pi_tracenorm \<lparr>shape = [1, 1, 1], vals = [5]\<rparr> (scaled_diagonal 1 3) = Inl e"
    using t2 [THEN conjunct2, THEN conjunct1] r3 by simp
  show ?thesis using r1 r2 r3 a b c by blast
qed

subsection \<open>Temporal series approximation\<close>

text \<open>
  Claim C4: on a \<open>FullyConnectedSeriesFB\<close>, \<open>register_matpower\<close> and \<open>multiply_matpower\<close>
  raise \<open>NotImplementedError\<close> for every exponent other than -1, whatever the state of the
  block, and with the exponent -1 neither raises that error.
\<close>

theorem series_only_inverse_supported:
  "(exponent \<noteq> - 1 \<longrightarrow>
      series_register_matpower self exponent = Inl NotImplementedError \<and>
      series_multiply_matpower self vector exponent = Inl NotImplementedError) \<and>
   series_register_matpower self (- 1) \<noteq> Inl NotImplementedError \<and>
   series_multiply_matpower self vector (- 1) \<noteq> Inl NotImplementedError"
  by (simp add: series_register_matpower_def series_multiply_matpower_def Let_def
      split: option.splits)

theorem series_only_inverse_supported_witness:
  "(1::real) \<noteq> - 1 \<and>
   series_register_matpower
     \<lparr>fb_option = 2, fb_num_uses = Some 3, fb_input_factor = None, fb_output_factor = None\<rparr> 1
     = Inl NotImplementedError \<and>
   series_multiply_matpower
     \<lparr>fb_option = 2, fb_num_uses = Some 3, fb_input_factor = None, fb_output_factor = None\<rparr>
     [[Fin 1]] 1 = Inl NotImplementedError"
  using series_only_inverse_supported
    [of 1 "\<lparr>fb_option = 2, fb_num_uses = Some 3, fb_input_factor = None,
             fb_output_factor = None\<rparr>" "[[Fin 1]]"]
  by simp

lemma map2_map_same: "map2 f xs (map g xs) = map (\<lambda>x. f x (g x)) xs"
  by (induction xs) auto

lemma guard_entry: "fadd t (fmul (Fin 1) (cast_bool (t = Fin 0))) = (if t = Fin 0 then Fin 1 else t)"
  by (cases t) (auto simp: cast_bool_def)

lemma guard_zeros_eq: "guard_zeros tmp = map (map (\<lambda>t. if t = Fin 0 then Fin 1 else t)) tmp"
proof -
  have "map2 (map2 fadd) tmp (map (map (\<lambda>t. fmul (Fin 1) (cast_bool (t = Fin 0)))) tmp)
      = map (\<lambda>row. map2 fadd row (map (\<lambda>t. fmul (Fin 1) (cast_bool (t = Fin 0))) row)) tmp"
    by (rule map2_map_same)
  also have "\<dots> = map (map (\<lambda>t. fadd t (fmul (Fin 1) (cast_bool (t = Fin 0))))) tmp"
    by (simp only: map2_map_same)
  finally show ?thesis
    by (simp add: guard_zeros_def elementwise_def guard_entry)
qed

text \<open>
  Claim C5: in Option 2 every entry of the denominator \<open>1 - mu_G mu_A^T\<close> that is exactly
  zero is replaced by 1 and the other entries are kept, so no entry of the divisor is zero;
  the result of \<open>multiply_matpower\<close> is the backward pass of the quotient by that divisor,
  divided by the number of time-steps \<open>T\<close>, which for a finite entry and \<open>T > 0\<close> is the
  product with \<open>1 / T\<close>.
\<close>

theorem series_option2_guarded_division:
  "guard_zeros (option2_denominator mu_G mu_A)
     = map (map (\<lambda>t. if t = Fin 0 then Fin 1 else t)) (option2_denominator mu_G mu_A) \<and>
   (\<forall>row \<in> set (guard_zeros (option2_denominator mu_G mu_A)). \<forall>d \<in> set row. d \<noteq> Fin 0) \<and>
   (fb_option self = 2 \<and> fb_input_factor self = Some fa \<and> fb_output_factor self = Some fg \<and>
    fb_num_uses self = Some T \<and> option2quants fa = (P_A, K_A, mu_A) \<and>
    option2quants fg = (P_G, K_G, mu_G) \<longrightarrow>
      series_multiply_matpower self vector (- 1)
        = Inr (transpose (div_scalar
            (option2_backward (P_A, K_A, mu_A) (P_G, K_G, mu_G)
               (elementwise fdiv
                  (option2_forward (P_A, K_A, mu_A) (P_G, K_G, mu_G) (transpose vector))
                  (guard_zeros (option2_denominator mu_G mu_A))))
            (Fin (real T))))) \<and>
   div_scalar Z (Fin (real T)) = map (map (\<lambda>z. fdiv z (Fin (real T)))) Z \<and>
   (0 < T \<longrightarrow> fdiv (Fin z) (Fin (real T)) = Fin (z * (1 / real T)))"
proof (intro conjI impI)
  show "guard_zeros (option2_denominator mu_G mu_A)
     = map (map (\<lambda>t. if t = Fin 0 then Fin 1 else t)) (option2_denominator mu_G mu_A)"
    by (rule guard_zeros_eq)
  show "\<forall>row \<in> set (guard_zeros (option2_denominator mu_G mu_A)). \<forall>d \<in> set row. d \<noteq> Fin 0"
    unfolding guard_zeros_eq by auto
  show "div_scalar Z (Fin (real T)) = map (map (\<lambda>z. fdiv z (Fin (real T)))) Z"
    by (simp add: div_scalar_def)
next
  assume "0 < T"
  then show "fdiv (Fin z) (Fin (real T)) = Fin (z * (1 / real T))"
    by simp
next
  assume "fb_option self = 2 \<and> fb_input_factor self = Some fa \<and>
    fb_output_factor self = Some fg \<and> fb_num_uses self = Some T \<and>
    option2quants fa = (P_A, K_A, mu_A) \<and> option2quants fg = (P_G, K_G, mu_G)"
  then show "series_multiply_matpower self vector (- 1)
        = Inr (transpose (div_scalar
            (option2_backward (P_A, K_A, mu_A) (P_G, K_G, mu_G)
               (elementwise fdiv
                  (option2_forward (P_A, K_A, mu_A) (P_G, K_G, mu_G) (transpose vector))
                  (guard_zeros (option2_denominator mu_G mu_A))))
            (Fin (real T))))"
    by (simp add: series_multiply_matpower_def series_option2_def series_option2_unscaled_def
        layer_params_to_mat2d_def mat2d_to_layer_params_def Let_def)
qed

theorem series_option2_guarded_division_witness:
  "option2_denominator [Fin 1, Fin 2] [Fin 1] = [[Fin 0], [Fin (- 1)]] \<and>
   guard_zeros (option2_denominator [Fin 1, Fin 2] [Fin 1]) = [[Fin 1], [Fin (- 1)]] \<and>
   series_multiply_matpower
     \<lparr>fb_option = 2, fb_num_uses = Some 2,
      fb_input_factor = Some \<lparr>option1quants = ([], []),
        option2quants = ([[Fin 0]], [[Fin 1]], [Fin 1]), calls = []\<rparr>,
      fb_output_factor = Some \<lparr>option1quants = ([], []),
        option2quants = ([[Fin 0, Fin 0], [Fin 0, Fin 0]], [[Fin 1, Fin 0], [Fin 0, Fin 1]],
                         [Fin 1, Fin 2]), calls = []\<rparr>\<rparr>
     [[Fin 4, Fin 6]] (- 1) = Inr [[Fin 2, Fin (- 3)]]"
proof -
  let ?fa = "\<lparr>option1quants = ([], []),
        option2quants = ([[Fin 0]], [[Fin 1]], [Fin 1]), calls = []\<rparr>"
  let ?fg = "\<lparr>option1quants = ([], []),
        option2quants = ([[Fin 0, Fin 0], [Fin 0, Fin 0]], [[Fin 1, Fin 0], [Fin 0, Fin 1]],
                         [Fin 1, Fin 2]), calls = []\<rparr>"
  let ?self = "\<lparr>fb_option = 2, fb_num_uses = Some 2,
      fb_input_factor = Some ?fa, fb_output_factor = Some ?fg\<rparr>"
  note t = series_option2_guarded_division
    [where mu_G = "[Fin 1, Fin 2]" and mu_A = "[Fin 1]" and self = ?self and fa = ?fa
       and fg = ?fg and T = 2 and P_A = "[[Fin 0]]" and K_A = "[[Fin 1]]"
       and P_G = "[[Fin 0, Fin 0], [Fin 0, Fin 0]]" and K_G = "[[Fin 1, Fin 0], [Fin 0, Fin 1]]"
       and vector = "[[Fin 4, Fin 6]]"]
  have d: "option2_denominator [Fin 1, Fin 2] [Fin 1] = [[Fin 0], [Fin (- 1)]]"
    by (simp add: option2_denominator_def outer_def fsub_def)
  have g: "guard_zeros (option2_denominator [Fin 1, Fin 2] [Fin 1]) = [[Fin 1], [Fin (- 1)]]"
    using t [THEN conjunct1] by (simp add: d)
  have "series_multiply_matpower ?self [[Fin 4, Fin 6]] (- 1)
        = Inr (transpose (div_scalar
            (option2_backward ([[Fin 0]], [[Fin 1]], [Fin 1])
               ([[Fin 0, Fin 0], [Fin 0, Fin 0]], [[Fin 1, Fin 0], [Fin 0, Fin 1]], [Fin 1, Fin 2])
               (elementwise fdiv
                  (option2_forward ([[Fin 0]], [[Fin 1]], [Fin 1])
                     ([[Fin 0, Fin 0], [Fin 0, Fin 0]], [[Fin 1, Fin 0], [Fin 0, Fin 1]],
                      [Fin 1, Fin 2]) (transpose [[Fin 4, Fin 6]]))
                  (guard_zeros (option2_denominator [Fin 1, Fin 2] [Fin 1]))))
            (Fin (real 2))))"
    using t [THEN conjunct2, THEN conjunct2, THEN conjunct1] by simp
  also have "\<dots> = Inr [[Fin 2, Fin (- 3)]]"
    unfolding g by code_simp
  finally show ?thesis using d g by simp
qed

lemma fpow_Fin: "fpow (Fin a) n = Fin (a ^ n)"
  by (cases n) auto

text \<open>
  Claim C6: the decay kernel of Option 1 is
  \<open>gamma x = (1 - x)^2 / (T (1 - x^2) - 2 x (1 - x^T))\<close> with \<open>T\<close> the number of time-steps,
  applied to every entry of the outer product of the two \<open>psi\<close> vectors, and \<open>gamma 0\<close> is
  \<open>1 / T\<close> for every \<open>T\<close>.
\<close>

theorem gamma_kernel:
  "(real T * (1 - x\<^sup>2) - 2 * x * (1 - x ^ T) \<noteq> 0 \<longrightarrow>
      gamma T (Fin x) = Fin ((1 - x)\<^sup>2 / (real T * (1 - x\<^sup>2) - 2 * x * (1 - x ^ T)))) \<and>
   gamma T (Fin 0) = fdiv (Fin 1) (Fin (real T)) \<and>
   (0 < T \<longrightarrow> gamma T (Fin 0) = Fin (1 / real T)) \<and>
   (i < length psi_G \<and> j < length psi_A \<longrightarrow>
      option1_kernel T psi_G psi_A ! i ! j = gamma T (fmul (psi_G ! i) (psi_A ! j)))"
proof (intro conjI impI)
  assume "real T * (1 - x\<^sup>2) - 2 * x * (1 - x ^ T) \<noteq> 0"
  then show "gamma T (Fin x) = Fin ((1 - x)\<^sup>2 / (real T * (1 - x\<^sup>2) - 2 * x * (1 - x ^ T)))"
    by (simp add: gamma_def fsub_def fpow_Fin)
next
  show g0: "gamma T (Fin 0) = fdiv (Fin 1) (Fin (real T))"
    by (simp add: gamma_def fsub_def fpow_Fin)
  assume "0 < T"
  then show "gamma T (Fin 0) = Fin (1 / real T)"
    by (simp add: g0)
next
  assume "i < length psi_G \<and> j < length psi_A"
  then show "option1_kernel T psi_G psi_A ! i ! j = gamma T (fmul (psi_G ! i) (psi_A ! j))"
    by (simp add: option1_kernel_def outer_def)
qed

theorem gamma_kernel_witness:
  "real (2::nat) * (1 - (1 / 2)\<^sup>2) - 2 * (1 / 2) * (1 - (1 / 2) ^ (2::nat)) \<noteq> (0::real) \<and>
   gamma 2 (Fin (1 / 2)) = Fin (1 / 3) \<and>
   gamma 2 (Fin 0) = Fin (1 / 2) \<and>
   option1_kernel 2 [Fin 0, Fin 1] [Fin 3] ! 0 ! 0 = Fin (1 / 2)"
  using gamma_kernel [of 2 "1 / 2" 0 "[Fin 0, Fin 1]" 0 "[Fin 3]"]
  by (simp add: power2_eq_square)

subsection \<open>Tower and use normalization\<close>

lemma process_data_unknown_strategy:
  "TOWER_STRATEGY \<noteq> ''concat'' \<Longrightarrow> TOWER_STRATEGY \<noteq> ''separate'' \<Longrightarrow>
     process_data TOWER_STRATEGY inputs grads_list = Inl ValueError"
  by (simp add: process_data_def)

lemma process_inputs_per_use_unknown_strategy:
  "TOWER_STRATEGY \<noteq> ''concat'' \<Longrightarrow> TOWER_STRATEGY \<noteq> ''separate'' \<Longrightarrow>
     \<exists>e. process_inputs TOWER_STRATEGY n (PerUse us # rest) = Inl e"
  by (auto simp: process_inputs_def split: sum.splits bool.splits)

lemma process_data_multi_use_folded:
  "process_data_multi_use TOWER_STRATEGY (Some n) (Folded t # rest) ((Folded g # gs) # others)
     = Inr (map Plain (Folded t # rest), map (map Plain) ((Folded g # gs) # others), Some n)"
  by (simp add: process_data_multi_use_def process_inputs_def process_grads_def)

text \<open>
  Claim C9 fails on the multi-use mix-in: with an aggregation strategy that is neither
  "concat" nor "separate", with inputs and gradients both given as single tensors (uses
  folded into the batch dimension) and the number of uses supplied, \<open>_process_data\<close> raises
  nothing and returns the data as it was.
\<close>

theorem process_data_multi_use_folded_no_error:
  "process_data_multi_use ''mirrored'' (Some 3) [Folded (0::nat)] [[Folded 1]]
     = Inr ([Plain (Folded 0)], [[Plain (Folded 1)]], Some 3)"
  by (simp add: process_data_multi_use_def process_inputs_def process_grads_def)

subsection \<open>Kronecker-product blocks\<close>

lemma fmul_one: "fmul (Fin 1) x = x"
  by (cases x) (auto simp: inf_of_sign_def)

lemma scale_one: "scale (Fin 1) m = m"
  by (simp add: scale_def fmul_one)

text \<open>
  What \<open>full_fisher_block\<close> returns for a block whose factors are instantiated, class by
  class: the Kronecker product of the two covariances times 1 for the base class,
  \<open>EmbeddingKFACFB\<close> and \<open>FullyConnectedKFACBasicFB\<close>, times \<open>num_locations\<close> for
  \<open>ConvKFCBasicFB\<close> and \<open>DepthwiseConvKFCBasicFB\<close>, times \<open>num_uses\<close> for
  \<open>FullyConnectedMultiIndepFB\<close> and \<open>EmbeddingKFACMultiIndepFB\<close>; for
  \<open>FullyConnectedSeriesFB\<close>, whose \<open>_renorm_coeff\<close> is \<open>assert False\<close>, an
  \<open>AssertionError\<close>.
\<close>

lemma full_fisher_block_by_class:
  "kfb_input_cov self = Some A \<and> kfb_output_cov self = Some B \<longrightarrow>
     (kfb_class self = KroneckerProductFB \<or> kfb_class self = EmbeddingKFACFB \<or>
      kfb_class self = FullyConnectedKFACBasicFB \<longrightarrow>
        full_fisher_block self = Inr (scale (Fin 1) (kronecker_product A B)) \<and>
        full_fisher_block self = Inr (kronecker_product A B)) \<and>
     ((kfb_class self = ConvKFCBasicFB \<or> kfb_class self = DepthwiseConvKFCBasicFB) \<and>
      kfb_num_locations self = Some (NpInt num_locations) \<longrightarrow>
        full_fisher_block self
          = Inr (scale (Fin (of_int num_locations)) (kronecker_product A B))) \<and>
     ((kfb_class self = FullyConnectedMultiIndepFB \<or>
       kfb_class self = EmbeddingKFACMultiIndepFB) \<and> kfb_num_uses self = Some num_uses \<longrightarrow>
        full_fisher_block self
          = Inr (scale (Fin (of_int num_uses)) (kronecker_product A B))) \<and>
     (kfb_class self = FullyConnectedSeriesFB \<longrightarrow>
        full_fisher_block self = Inl AssertionError)"
  by (auto simp: full_fisher_block_def renorm_coeff_def scale_one)

text \<open>
  The sibling class works: \<open>ConvKFCBasicFB.instantiate_factors\<close> on a tower of shape
  \<open>[8, 32, 32, 3]\<close> sets 1024 locations, and \<open>full_fisher_block\<close> then returns 1024 times
  the Kronecker product.
\<close>

lemma conv_kfc_basic_instantiated:
  "conv_kfc_basic_instantiate_factors ''concat'' None A B
      \<lparr>kfb_class = ConvKFCBasicFB, kfb_num_locations = None, kfb_num_uses = None,
       kfb_input_cov = None, kfb_output_cov = None\<rparr>
      [[8, 32, 32, 3]] [[[8, 32, 32, 16]]]
     = Inr \<lparr>kfb_class = ConvKFCBasicFB, kfb_num_locations = Some (NpInt 1024),
            kfb_num_uses = None, kfb_input_cov = Some A, kfb_output_cov = Some B\<rparr> \<and>
   full_fisher_block
      \<lparr>kfb_class = ConvKFCBasicFB, kfb_num_locations = Some (NpInt 1024),
       kfb_num_uses = None, kfb_input_cov = Some A, kfb_output_cov = Some B\<rparr>
     = Inr (scale (Fin 1024) (kronecker_product A B))"
  by (simp add: conv_kfc_basic_instantiate_factors_def process_data_def
      num_conv_locations_def np_prod_def spatial_dims_def wrap64_def
      full_fisher_block_def renorm_coeff_def)

text \<open>
  \<open>ConvKFCBasicMultiIndepFB.instantiate_factors\<close> raises on every input: whatever
  \<open>_process_data\<close> returns has no shape.
\<close>

lemma conv_kfc_basic_multi_indep_never_instantiated:
  "\<exists>e. conv_kfc_basic_multi_indep_instantiate_factors TOWER_STRATEGY strides A B self
          inputs grads_list = Inl e"
  by (auto simp: conv_kfc_basic_multi_indep_instantiate_factors_def shape_of_sequence_def
      split: sum.splits prod.splits)

text \<open>
  Claim C3 is what the code means to do, and the code fails it for
  \<open>ConvKFCBasicMultiIndepFB\<close>: with one tower of two uses registered,
  \<open>instantiate_factors\<close> raises \<open>AttributeError\<close> where it reads \<open>inputs.shape\<close>, so neither
  \<open>_num_locations\<close> nor the factors are ever set, and \<open>full_fisher_block\<close> on the block
  raises \<open>AttributeError\<close> instead of returning \<open>num_locations * num_uses\<close> times the
  Kronecker product.
\<close>

theorem conv_kfc_basic_multi_indep_full_fisher_block_fails:
  "conv_kfc_basic_multi_indep_instantiate_factors ''concat'' None [[Fin 2]] [[Fin 3]]
      \<lparr>kfb_class = ConvKFCBasicMultiIndepFB, kfb_num_locations = None, kfb_num_uses = None,
       kfb_input_cov = None, kfb_output_cov = None\<rparr>
      [PerUse [[8, 32, 32, 3], [8, 32, 32, 3]]]
      [[PerUse [[8, 32, 32, 16], [8, 32, 32, 16]]]]
     = Inl AttributeError \<and>
   full_fisher_block
      \<lparr>kfb_class = ConvKFCBasicMultiIndepFB, kfb_num_locations = None, kfb_num_uses = None,
       kfb_input_cov = None, kfb_output_cov = None\<rparr>
     = Inl AttributeError"
  by (simp add: conv_kfc_basic_multi_indep_instantiate_factors_def shape_of_sequence_def
      process_data_multi_use_def process_inputs_def process_grads_def infer_num_uses_def
      full_fisher_block_def)

subsection \<open>Depthwise convolution adapter\<close>

lemma length_tabulate2: "length (tabulate2 h w f) = h"
  by (simp add: tabulate2_def)
























end
